theory Spec2Isabelle
  imports Complex_Main
begin

section \<open>Data model\<close>

text \<open>
  The embedding follows \<^verbatim>\<open>openlr_dereferencer/decoding/candidate_functions.py\<close>.
  Metres, degrees, offsets and scores are Python floats there; they are modelled as real
  numbers (no rounding, no NaN). A map node is identified with its \<^verbatim>\<open>node_id\<close>, an
  FRC with its number (0 = most important).
\<close>

type_synonym node = nat
type_synonym frc = nat
type_synonym coordinates = "real \<times> real"

text \<open>\<^verbatim>\<open>openlr.LocationReferencePoint\<close>: a named tuple, compared by value.\<close>

record lrp =
  lon :: real
  lat :: real
  lrp_frc :: frc
  lrp_fow :: nat
  bear :: real
  lfrcnp :: frc
  dnp :: real

text \<open>
  \<^verbatim>\<open>Line\<close>: the attributes this module reads. \<open>geometry_length\<close> is
  \<^verbatim>\<open>line.geometry.length\<close>, the length of the line's polyline.
\<close>

record line =
  line_id :: nat
  start_node :: node
  end_node :: node
  frc :: frc
  geometry_length :: real

text \<open>
  \<^verbatim>\<open>PointOnLine\<close> and its subclass \<^verbatim>\<open>Candidate\<close>, which adds the score.
  \<^verbatim>\<open>Candidate(line, reloff)\<close> builds a candidate whose score is not yet set; the
  model starts it at 0.
\<close>

record point_on_line =
  line :: line
  relative_offset :: real

record candidate = point_on_line +
  score :: real

definition Candidate :: "line \<Rightarrow> real \<Rightarrow> candidate" where
  "Candidate l reloff = \<lparr>line = l, relative_offset = reloff, score = 0\<rparr>"

text \<open>\<^verbatim>\<open>Route(start, path, dest, geo_tool)\<close>.\<close>

datatype route = Route candidate "line list" candidate

record config =
  search_radius :: real
  candidate_threshold :: real
  bear_dist :: real
  max_bear_deviation :: real
  min_score :: real
  tolerated_lfrc :: "frc \<Rightarrow> frc"
  max_dnp_deviation :: real
  tolerated_dnp_dev :: real

subsection \<open>Errors\<close>

text \<open>
  Every exception the module raises or lets through is a value. \<open>LRDecodeError\<close> carries
  which of the module's two messages it was raised with. \<open>External_error\<close> stands for any
  exception of the projection or of the path search other than
  \<^verbatim>\<open>LRPathNotFoundError\<close>: the module does not catch it.
\<close>

datatype decode_msg = No_candidates_left | No_candidates_found lrp

datatype error =
    LRDecodeError decode_msg
  | LRPathNotFoundError
  | KeyError
  | IndexError
  | External_error

subsection \<open>Observer events\<close>

text \<open>
  The optional \<^verbatim>\<open>DecoderObserver\<close> is a flag (\<open>True\<close>: an observer was given) and
  the calls made on it are a trace, in call order. \<open>On_score\<close> stands for whatever the
  scoring function reports to the observer it is handed.
\<close>

datatype event =
    On_candidate_rejected_frc lrp candidate frc
  | On_candidate_rejected_bearing lrp candidate real real real
  | On_candidate_rejected lrp candidate real real
  | On_candidate_found lrp candidate
  | On_score lrp candidate real
  | On_no_candidates_found lrp
  | On_candidates_found lrp "candidate list"
  | On_route_fail lrp lrp candidate candidate string
  | On_route_success lrp lrp candidate candidate route
  | On_route_fail_length lrp lrp candidate candidate route real real real
  | On_matching_fail lrp lrp "candidate list" "candidate list" string

definition notify :: "bool \<Rightarrow> event \<Rightarrow> event list" where
  "notify observer e = (if observer then [e] else [])"

subsection \<open>External collaborators\<close>

text \<open>
  The map reader, the geo tool, the geometry helpers, the scoring function, the path
  search and \<^verbatim>\<open>Route.length\<close> live in other modules. They are parameters of the
  model, so every theorem holds for each implementation of them. \<open>project\<close> returns
  \<open>None\<close> and \<open>shortest_path\<close> returns \<open>Inl\<close> when the call raises.
\<close>

record env =
  coords :: "lrp \<Rightarrow> coordinates"
  project :: "line \<Rightarrow> coordinates \<Rightarrow> point_on_line option"
  distance_from_start :: "point_on_line \<Rightarrow> real"
  distance_to_end :: "point_on_line \<Rightarrow> real"
  compute_bearing :: "candidate \<Rightarrow> bool \<Rightarrow> real \<Rightarrow> real"
  angle_difference :: "real \<Rightarrow> real \<Rightarrow> real"
  score_lrp_candidate :: "lrp \<Rightarrow> candidate \<Rightarrow> config \<Rightarrow> bool \<Rightarrow> bool \<Rightarrow> real \<times> event list"
  find_lines_close_to :: "coordinates \<Rightarrow> real \<Rightarrow> line list"
  incoming_lines :: "node \<Rightarrow> line list"
  outgoing_lines :: "node \<Rightarrow> line list"
  shortest_path :: "node \<Rightarrow> node \<Rightarrow> (line \<Rightarrow> bool) \<Rightarrow> real \<Rightarrow> error + line list"
  route_length :: "route \<Rightarrow> real"

section \<open>Node classification\<close>

text \<open>
  \<^verbatim>\<open>is_invalid_node\<close>: the two loops add both end nodes of every incoming and of every
  outgoing line to the set \<^verbatim>\<open>unique_nodes\<close>.
\<close>

definition add_endpoints :: "line \<Rightarrow> node set \<Rightarrow> node set" where
  "add_endpoints l unique_nodes = insert (end_node l) (insert (start_node l) unique_nodes)"

definition is_invalid_node :: "env \<Rightarrow> node \<Rightarrow> bool" where
  "is_invalid_node e n =
     (let incoming = incoming_lines e n;
          outgoing = outgoing_lines e n
      in if (length incoming = 1 \<and> length outgoing = 1) \<or>
            (length incoming = 2 \<and> length outgoing = 2)
         then card (fold add_endpoints outgoing (fold add_endpoints incoming {})) = 3
         else False)"

definition is_valid_node :: "env \<Rightarrow> node \<Rightarrow> bool" where
  "is_valid_node e n = (\<not> is_invalid_node e n)"

section \<open>Candidate generation\<close>

text \<open>
  \<^verbatim>\<open>make_candidates\<close>, lines 31 to 41 (the LRP is not the last one) and lines 43 to 53
  (it is the last one): the new relative offset, or \<open>None\<close> where the source returns
  without a candidate.
\<close>

definition snap_not_last :: "env \<Rightarrow> config \<Rightarrow> line \<Rightarrow> point_on_line \<Rightarrow> real \<Rightarrow> real option" where
  "snap_not_last e cfg l point reloff =
     (if \<bar>distance_from_start e point\<bar> \<le> candidate_threshold cfg \<and> is_valid_node e (start_node l)
      then Some 0
      else if \<bar>distance_to_end e point\<bar> \<le> candidate_threshold cfg \<and> is_valid_node e (end_node l)
      then None
      else Some reloff)"

definition snap_last :: "env \<Rightarrow> config \<Rightarrow> line \<Rightarrow> point_on_line \<Rightarrow> real \<Rightarrow> real option" where
  "snap_last e cfg l point reloff =
     (if \<bar>distance_to_end e point\<bar> \<le> candidate_threshold cfg \<and> is_valid_node e (end_node l)
      then Some 1
      else if distance_from_start e point \<le> candidate_threshold cfg \<and> is_valid_node e (start_node l)
      then None
      else Some reloff)"

text \<open>
  Lines 57 to 85: the FRC check, the bearing check and the score floor on the candidate
  at the final offset. The result is the list of yielded candidates and the observer's trace.
\<close>

definition admit_candidate ::
  "env \<Rightarrow> lrp \<Rightarrow> line \<Rightarrow> config \<Rightarrow> bool \<Rightarrow> bool \<Rightarrow> real \<Rightarrow> candidate list \<times> event list" where
  "admit_candidate e p l cfg observer is_last_lrp reloff =
     (let c = Candidate l reloff;
          bearing = compute_bearing e c is_last_lrp (bear_dist cfg);
          bear_diff = angle_difference e bearing (bear p)
      in if frc l > tolerated_lfrc cfg (lfrcnp p)
         then ([], notify observer (On_candidate_rejected_frc p c (tolerated_lfrc cfg (lfrcnp p))))
         else if \<bar>bear_diff\<bar> > max_bear_deviation cfg
         then ([], notify observer
                 (On_candidate_rejected_bearing p c bearing bear_diff (max_bear_deviation cfg)))
         else
           (let (s, score_events) = score_lrp_candidate e p c cfg is_last_lrp observer;
                c' = c\<lparr>score := s\<rparr>
            in if s < min_score cfg
               then ([], score_events @ notify observer (On_candidate_rejected p c' s (min_score cfg)))
               else ([c'], score_events @ notify observer (On_candidate_found p c'))))"

definition make_candidates ::
  "env \<Rightarrow> lrp \<Rightarrow> line \<Rightarrow> config \<Rightarrow> bool \<Rightarrow> bool \<Rightarrow> (error + candidate list) \<times> event list" where
  "make_candidates e p l cfg observer is_last_lrp =
     (if geometry_length l = 0 then (Inr [], [])
      else
        (case project e l (coords e p) of
           None \<Rightarrow> (Inl External_error, [])
         | Some point \<Rightarrow>
             (case (if \<not> is_last_lrp
                    then snap_not_last e cfg l point (relative_offset point)
                    else Some (relative_offset point)) of
                None \<Rightarrow> (Inr [], [])
              | Some reloff1 \<Rightarrow>
                  (case (if is_last_lrp then snap_last e cfg l point reloff1 else Some reloff1) of
                     None \<Rightarrow> (Inr [], [])
                   | Some reloff \<Rightarrow>
                       if (is_last_lrp \<and> reloff \<le> 0) \<or> (\<not> is_last_lrp \<and> reloff \<ge> 1)
                       then (Inr [], [])
                       else (let (cs, evs) = admit_candidate e p l cfg observer is_last_lrp reloff
                             in (Inr cs, evs))))))"

text \<open>
  \<^verbatim>\<open>nominate_candidates\<close>: the loop over the lines the reader finds. An exception in one
  line's projection ends the loop; the calls already made on the observer stay.
\<close>

fun nominate_lines ::
  "env \<Rightarrow> lrp \<Rightarrow> config \<Rightarrow> bool \<Rightarrow> bool \<Rightarrow> line list \<Rightarrow> (error + candidate list) \<times> event list" where
  "nominate_lines e p cfg observer is_last_lrp [] = (Inr [], [])"
| "nominate_lines e p cfg observer is_last_lrp (l # ls) =
     (case make_candidates e p l cfg observer is_last_lrp of
        (Inl err, evs) \<Rightarrow> (Inl err, evs)
      | (Inr cs, evs) \<Rightarrow>
          (case nominate_lines e p cfg observer is_last_lrp ls of
             (Inl err, evs') \<Rightarrow> (Inl err, evs @ evs')
           | (Inr cs', evs') \<Rightarrow> (Inr (cs @ cs'), evs @ evs')))"

definition nominate_candidates ::
  "env \<Rightarrow> lrp \<Rightarrow> config \<Rightarrow> bool \<Rightarrow> bool \<Rightarrow> (error + candidate list) \<times> event list" where
  "nominate_candidates e p cfg observer is_last_lrp =
     nominate_lines e p cfg observer is_last_lrp
       (find_lines_close_to e (coords e p) (search_radius cfg))"

section \<open>Route resolver\<close>

definition get_candidate_route ::
  "env \<Rightarrow> candidate \<Rightarrow> candidate \<Rightarrow> frc \<Rightarrow> real \<Rightarrow> error + route option" where
  "get_candidate_route e start dest lfrc maxlen =
     (if line_id (line start) = line_id (line dest) then Inr (Some (Route start [] dest))
      else
        (case shortest_path e (end_node (line start)) (start_node (line dest))
                (\<lambda>l. frc l \<le> lfrc) maxlen of
           Inr path \<Rightarrow> Inr (Some (Route start path dest))
         | Inl LRPathNotFoundError \<Rightarrow> Inr None
         | Inl err \<Rightarrow> Inl err))"

text \<open>
  \<^verbatim>\<open>handleCandidatePair\<close>. A \<^verbatim>\<open>Route\<close> object is taken to be truthy, so
  \<^verbatim>\<open>not route\<close> holds exactly for \<^verbatim>\<open>None\<close>.
\<close>

definition handleCandidatePair ::
  "env \<Rightarrow> bool \<Rightarrow> lrp \<times> lrp \<Rightarrow> candidate \<times> candidate \<Rightarrow> frc \<Rightarrow> real \<Rightarrow> real
     \<Rightarrow> (error + route option) \<times> event list" where
  "handleCandidatePair e observer lrps candidates lowest_frc minlen maxlen =
     (let (current, next_lrp) = lrps;
          (source, dest) = candidates
      in case get_candidate_route e source dest lowest_frc maxlen of
           Inl err \<Rightarrow> (Inl err, [])
         | Inr None \<Rightarrow>
             (Inr None,
              notify observer (On_route_fail current next_lrp source dest ''No path for candidate found''))
         | Inr (Some r) \<Rightarrow>
             (let len = route_length e r;
                  evs = notify observer (On_route_success current next_lrp source dest r)
              in if len < minlen \<or> len > maxlen
                 then (Inr None,
                       evs @ notify observer
                               (On_route_fail_length current next_lrp source dest r len minlen maxlen)
                           @ notify observer
                               (On_route_fail current next_lrp source dest
                                  ''Shortest path deviation from DNP is too large''))
                 else (Inr (Some r), evs)))"

section \<open>Tail matcher\<close>

text \<open>
  The memoisation dictionary. Its keys are Python tuples: the membership test of line 174
  builds \<^verbatim>\<open>(depth, candidates[0])\<close>, lines 175, 225 and 234 build
  \<^verbatim>\<open>(current, candidates[0])\<close>, lines 209 to 218 build \<^verbatim>\<open>(c_from, c_to)\<close>. An integer,
  a location reference point and a candidate never compare equal, so the three shapes
  are three constructors. A stored value is \<^verbatim>\<open>None\<close> (a recorded failure) or a list
  of routes; a candidate is hashed and compared by value.
\<close>

datatype key =
    Depth_key int candidate
  | Lrp_key lrp candidate
  | Pair_key candidate candidate

type_synonym cache = "key \<rightharpoonup> route list option"

text \<open>What a call has changed when it returns: the dictionary and the observer's trace.\<close>

record state =
  cache :: cache
  trace :: "event list"

definition emit :: "event list \<Rightarrow> state \<Rightarrow> state" where
  "emit evs st = st\<lparr>trace := trace st @ evs\<rparr>"

definition store :: "key \<Rightarrow> route list option \<Rightarrow> state \<Rightarrow> state" where
  "store k v st = st\<lparr>cache := (cache st)(k \<mapsto> v)\<rparr>"

text \<open>
  Lines 174 to 179: \<open>None\<close> where the test of line 174 is false and the call goes on,
  otherwise what the call returns or raises. The test reads the key with \<open>depth\<close>, the
  lookup of line 175 the key with \<open>current\<close>; a key that is missing there is a
  \<^verbatim>\<open>KeyError\<close>.
\<close>

definition memo_lookup :: "lrp \<Rightarrow> candidate list \<Rightarrow> int \<Rightarrow> cache \<Rightarrow> (error + route list) option" where
  "memo_lookup current candidates depth c =
     (if length candidates = 1 \<and> c (Depth_key depth (candidates ! 0)) \<noteq> None
      then Some (case c (Lrp_key current (candidates ! 0)) of
                   None \<Rightarrow> Inl KeyError
                 | Some None \<Rightarrow> Inl (LRDecodeError No_candidates_left)
                 | Some (Some v) \<Rightarrow> Inr v)
      else None)"

text \<open>
  Lines 208 to 235: the loop over the sorted pairs, and what follows it when no pair
  matched. \<open>recurse c_to\<close> is the recursive call of line 223 on the rest of the tail.
\<close>

fun match_pairs ::
  "(candidate \<Rightarrow> state \<Rightarrow> (error + route list) \<times> state) \<Rightarrow> env \<Rightarrow> bool \<Rightarrow> lrp \<Rightarrow> lrp
     \<Rightarrow> candidate list \<Rightarrow> candidate list \<Rightarrow> bool \<Rightarrow> frc \<Rightarrow> real \<Rightarrow> real
     \<Rightarrow> (candidate \<times> candidate) list \<Rightarrow> state \<Rightarrow> (error + route list) \<times> state" where
  "match_pairs recurse e observer current next_lrp candidates next_candidates last_lrp
       lfrc minlen maxlen [] st =
     (let st1 = emit (notify observer
                  (On_matching_fail current next_lrp candidates next_candidates
                     ''No candidate pair matches'')) st;
          st2 = (if length candidates = 1
                 then store (Lrp_key current (candidates ! 0)) None st1 else st1)
      in (Inl (LRDecodeError No_candidates_left), st2))"
| "match_pairs recurse e observer current next_lrp candidates next_candidates last_lrp
       lfrc minlen maxlen ((c_from, c_to) # pairs) st =
     (case cache st (Pair_key c_from c_to) of
        Some None \<Rightarrow> (Inl (LRDecodeError No_candidates_left), st)
      | Some (Some v) \<Rightarrow> (Inr v, st)
      | None \<Rightarrow>
          (case handleCandidatePair e observer (current, next_lrp) (c_from, c_to)
                  lfrc minlen maxlen of
             (Inl err, evs) \<Rightarrow> (Inl err, emit evs st)
           | (Inr None, evs) \<Rightarrow>
               match_pairs recurse e observer current next_lrp candidates next_candidates
                 last_lrp lfrc minlen maxlen pairs
                 (store (Pair_key c_from c_to) None (emit evs st))
           | (Inr (Some r), evs) \<Rightarrow>
               if last_lrp then (Inr [r], emit evs st)
               else
                 (case recurse c_to (emit evs st) of
                    (Inr sub, st') \<Rightarrow>
                      (let full_route = [r] @ sub
                       in (Inr full_route,
                           if length candidates = 1
                           then store (Lrp_key current (candidates ! 0)) (Some full_route) st'
                           else st'))
                  | (Inl (LRDecodeError msg), st') \<Rightarrow>
                      match_pairs recurse e observer current next_lrp candidates
                        next_candidates last_lrp lfrc minlen maxlen pairs st'
                  | (Inl err, st') \<Rightarrow> (Inl err, st'))))"

text \<open>
  \<^verbatim>\<open>match_tail\<close>. \<^verbatim>\<open>tail[0]\<close> on an empty tail and \<^verbatim>\<open>candidates[0]\<close> (line 192) on
  an empty candidate list raise \<^verbatim>\<open>IndexError\<close>. \<^verbatim>\<open>pairs.sort(..., reverse=True)\<close>
  is stable, as \<open>sort_key\<close> on the negated key is.
\<close>

fun match_tail ::
  "env \<Rightarrow> config \<Rightarrow> bool \<Rightarrow> lrp \<Rightarrow> candidate list \<Rightarrow> lrp list \<Rightarrow> int \<Rightarrow> state
     \<Rightarrow> (error + route list) \<times> state" where
  "match_tail e cfg observer current candidates [] depth st =
     (case memo_lookup current candidates depth (cache st) of
        Some res \<Rightarrow> (res, st)
      | None \<Rightarrow> (Inl IndexError, st))"
| "match_tail e cfg observer current candidates (next_lrp # rest) depth st =
     (case memo_lookup current candidates depth (cache st) of
        Some res \<Rightarrow> (res, st)
      | None \<Rightarrow>
          (let last_lrp = (length (next_lrp # rest) = 1);
               minlen = (1 - max_dnp_deviation cfg) * dnp current - tolerated_dnp_dev cfg;
               maxlen = (1 + max_dnp_deviation cfg) * dnp current + tolerated_dnp_dev cfg;
               lfrc = tolerated_lfrc cfg (lfrcnp current)
           in if candidates = [] then (Inl IndexError, st)
              else
                (case nominate_candidates e next_lrp cfg observer last_lrp of
                   (Inl err, evs) \<Rightarrow> (Inl err, emit evs st)
                 | (Inr next_candidates, evs) \<Rightarrow>
                     if next_candidates = []
                     then (Inl (LRDecodeError (No_candidates_found next_lrp)),
                           emit (evs @ notify observer (On_no_candidates_found next_lrp)) st)
                     else
                       match_pairs
                         (\<lambda>c_to. match_tail e cfg observer next_lrp [c_to] rest (depth + 1))
                         e observer current next_lrp candidates next_candidates last_lrp
                         lfrc minlen maxlen
                         (sort_key (\<lambda>pair. - (score (fst pair) + score (snd pair)))
                            (List.product candidates next_candidates))
                         (emit (evs @ notify observer
                                  (On_candidates_found next_lrp next_candidates)) st))))"

text \<open>
  A top-level call that leaves \<^verbatim>\<open>depth\<close> and \<^verbatim>\<open>cache\<close> to their defaults. Python
  evaluates the default \<^verbatim>\<open>{}\<close> once, when the function is defined; every such call
  receives that one dictionary. \<open>default_cache\<close> is its content before the call, and the
  second component of the result its content after.
\<close>

definition match_tail_default ::
  "env \<Rightarrow> config \<Rightarrow> bool \<Rightarrow> lrp \<Rightarrow> candidate list \<Rightarrow> lrp list \<Rightarrow> cache
     \<Rightarrow> (error + route list) \<times> cache" where
  "match_tail_default e cfg observer current candidates tail default_cache =
     (let (res, st) = match_tail e cfg observer current candidates tail 0
                        \<lparr>cache = default_cache, trace = []\<rparr>
      in (res, cache st))"

text \<open>
  Two such calls with the same arguments, one after the other in one process: the second
  receives the dictionary as the first left it.
\<close>

definition two_default_calls ::
  "env \<Rightarrow> config \<Rightarrow> bool \<Rightarrow> lrp \<Rightarrow> candidate list \<Rightarrow> lrp list \<Rightarrow> cache
     \<Rightarrow> (error + route list) \<times> (error + route list)" where
  "two_default_calls e cfg observer current candidates tail default_cache =
     (let (first_res, cache1) = match_tail_default e cfg observer current candidates tail default_cache;
          (second_res, cache2) = match_tail_default e cfg observer current candidates tail cache1
      in (first_res, second_res))"

section \<open>Properties stated in the specification's words\<close>

text \<open>
  The specification's bidirectional road continuation at a node: every incoming line has
  an outgoing line running the opposite way between the same two nodes, and every
  outgoing line has such an incoming line. The source has no counterpart of it; it is
  here to be compared with \<open>is_invalid_node\<close>.
\<close>

definition spec_bidirectional_continuation :: "env \<Rightarrow> node \<Rightarrow> bool" where
  "spec_bidirectional_continuation e n =
     (list_all (\<lambda>inc. list_ex (\<lambda>out. start_node out = end_node inc \<and> end_node out = start_node inc)
                         (outgoing_lines e n)) (incoming_lines e n) \<and>
      list_all (\<lambda>out. list_ex (\<lambda>inc. start_node inc = end_node out \<and> end_node inc = start_node out)
                         (incoming_lines e n)) (outgoing_lines e n))"

text \<open>
  The specification's DNP envelope over a whole result: there is one route per
  consecutive pair of location reference points, and the length of each lies between
  the \<open>minlen\<close> and the \<open>maxlen\<close> of the point it starts from.
\<close>

fun within_envelopes :: "env \<Rightarrow> config \<Rightarrow> lrp \<Rightarrow> lrp list \<Rightarrow> route list \<Rightarrow> bool" where
  "within_envelopes e cfg current (next_lrp # rest) (r # rs) =
     ((1 - max_dnp_deviation cfg) * dnp current - tolerated_dnp_dev cfg \<le> route_length e r \<and>
      route_length e r \<le> (1 + max_dnp_deviation cfg) * dnp current + tolerated_dnp_dev cfg \<and>
      (if rest = [] then rs = [] else within_envelopes e cfg next_lrp rest rs))"
| "within_envelopes e cfg current tail rs = False"


text \<open>
  A dictionary as the module itself fills it: no key of the shape
  \<^verbatim>\<open>(depth, candidate)\<close>, and no list of routes under a pair key (line 218 stores
  failures only).
\<close>

definition computed_only :: "cache \<Rightarrow> bool" where
  "computed_only c =
     ((\<forall>d x. c (Depth_key d x) = None) \<and> (\<forall>a b v. c (Pair_key a b) \<noteq> Some (Some v)))"

section \<open>A small map\<close>

text \<open>
  Three lines: \<open>line_a\<close> from node 0 to node 1, \<open>line_b\<close> and \<open>line_c\<close> leaving node 1.
  The reader finds \<open>line_b\<close> and \<open>line_c\<close> near every point and projects onto the middle
  of a line, 50 m from either end; a route that ends on \<open>line_b\<close> is 500 m long, any
  other 100 m. With \<open>dnp = 100\<close> the envelope is from 60 to 140.
\<close>

definition line_a :: line where
  "line_a = \<lparr>line_id = 1, start_node = 0, end_node = 1, frc = 0, geometry_length = 1\<rparr>"

definition line_b :: line where
  "line_b = \<lparr>line_id = 2, start_node = 1, end_node = 2, frc = 0, geometry_length = 1\<rparr>"

definition line_c :: line where
  "line_c = \<lparr>line_id = 3, start_node = 1, end_node = 3, frc = 0, geometry_length = 1\<rparr>"


definition sample_env :: env where
  "sample_env =
     \<lparr>coords = (\<lambda>p. (lon p, lat p)),
      project = (\<lambda>l c. Some \<lparr>line = l, relative_offset = 1 / 2\<rparr>),
      distance_from_start = (\<lambda>point. 50),
      distance_to_end = (\<lambda>point. 50),
      compute_bearing = (\<lambda>c is_last_lrp dist. 0),
      angle_difference = (\<lambda>a b. a - b),
      score_lrp_candidate =
        (\<lambda>p c cfg is_last_lrp observer. (if line_id (line c) = 2 then 9 / 10 else 8 / 10, [])),
      find_lines_close_to = (\<lambda>c radius. [line_b, line_c]),
      incoming_lines = (\<lambda>n. []),
      outgoing_lines = (\<lambda>n. []),
      shortest_path = (\<lambda>a b linefilter maxlen. Inr []),
      route_length =
        (\<lambda>r. case r of Route start path dest \<Rightarrow> if line_id (line dest) = 2 then 500 else 100)\<rparr>"

definition sample_config :: config where
  "sample_config =
     \<lparr>search_radius = 100, candidate_threshold = 20, bear_dist = 20, max_bear_deviation = 45,
      min_score = 3 / 10, tolerated_lfrc = (\<lambda>f. 7), max_dnp_deviation = 1 / 10,
      tolerated_dnp_dev = 30\<rparr>"

definition lrp0 :: lrp where
  "lrp0 = \<lparr>lon = 0, lat = 0, lrp_frc = 0, lrp_fow = 0, bear = 0, lfrcnp = 0, dnp = 100\<rparr>"

definition lrp1 :: lrp where
  "lrp1 = \<lparr>lon = 1, lat = 0, lrp_frc = 0, lrp_fow = 0, bear = 0, lfrcnp = 0, dnp = 100\<rparr>"

definition lrp2 :: lrp where
  "lrp2 = \<lparr>lon = 2, lat = 0, lrp_frc = 0, lrp_fow = 0, bear = 0, lfrcnp = 0, dnp = 0\<rparr>"

text \<open>A first point that expects the next one 1000 m away: its envelope is from 870 to 1130.\<close>

definition lrp_far :: lrp where
  "lrp_far = \<lparr>lon = 0, lat = 0, lrp_frc = 0, lrp_fow = 0, bear = 0, lfrcnp = 0, dnp = 1000\<rparr>"

definition cand_a :: candidate where
  "cand_a = \<lparr>line = line_a, relative_offset = 0, score = 1\<rparr>"

definition cand_a' :: candidate where
  "cand_a' = \<lparr>line = line_a, relative_offset = 7 / 10, score = 1\<rparr>"

definition cand_b :: candidate where
  "cand_b = \<lparr>line = line_b, relative_offset = 1 / 2, score = 9 / 10\<rparr>"

definition cand_c :: candidate where
  "cand_c = \<lparr>line = line_c, relative_offset = 1 / 2, score = 8 / 10\<rparr>"

text \<open>The same map where the reader reports \<open>line_b\<close> twice.\<close>

definition duplicate_env :: env where
  "duplicate_env = sample_env\<lparr>find_lines_close_to := (\<lambda>c radius. [line_b, line_b, line_c])\<rparr>"

text \<open>The same map where the reader finds no line.\<close>

definition empty_env :: env where
  "empty_env = sample_env\<lparr>find_lines_close_to := (\<lambda>c radius. [])\<rparr>"

text \<open>The same map where every projection and every path search raises.\<close>

definition raising_env :: env where
  "raising_env =
     sample_env\<lparr>project := (\<lambda>l c. None),
                shortest_path := (\<lambda>a b linefilter maxlen. Inl External_error)\<rparr>"



text \<open>
  A junction at node 0: lines come in from node 1 and from node 2, and two parallel lines
  leave for node 1. Nothing leaves for node 2.
\<close>

definition junction_env :: env where
  "junction_env =
     sample_env
       \<lparr>incoming_lines :=
          (\<lambda>n. if n = 0
                then [\<lparr>line_id = 11, start_node = 1, end_node = 0, frc = 0, geometry_length = 1\<rparr>,
                      \<lparr>line_id = 12, start_node = 2, end_node = 0, frc = 0, geometry_length = 1\<rparr>]
                else []),
        outgoing_lines :=
          (\<lambda>n. if n = 0
                then [\<lparr>line_id = 13, start_node = 0, end_node = 1, frc = 0, geometry_length = 1\<rparr>,
                      \<lparr>line_id = 14, start_node = 0, end_node = 1, frc = 0, geometry_length = 1\<rparr>]
                else [])\<rparr>"

section \<open>Evaluating the small map\<close>

lemmas sample_lines = line_a_def line_b_def line_c_def
lemmas sample_cands = cand_a_def cand_a'_def cand_b_def cand_c_def

lemma sample_config_sel:
  "tolerated_lfrc sample_config f = 7" "max_dnp_deviation sample_config = 1 / 10"
  "tolerated_dnp_dev sample_config = 30" "candidate_threshold sample_config = 20"
  "search_radius sample_config = 100"
  by (simp_all add: sample_config_def)

lemma sample_lrp_sel:
  "dnp lrp0 = 100" "dnp lrp1 = 100" "lfrcnp lrp0 = 0" "lfrcnp lrp1 = 0"
  "bear lrp0 = 0" "bear lrp1 = 0" "bear lrp2 = 0"
  by (simp_all add: lrp0_def lrp1_def lrp2_def)

lemma sample_distinct:
  "cand_a \<noteq> cand_b" "cand_a \<noteq> cand_c" "cand_b \<noteq> cand_c" "cand_c \<noteq> cand_b"
  "cand_c \<noteq> cand_a" "cand_b \<noteq> cand_a"
  by (simp_all add: sample_cands sample_lines)

lemma sample_make_b:
  "bear p = 0 \<Longrightarrow> make_candidates sample_env p line_b sample_config observer is_last_lrp =
     (Inr [cand_b], notify observer (On_candidate_found p cand_b))"
  by (simp add: make_candidates_def snap_not_last_def snap_last_def admit_candidate_def
      Candidate_def Let_def sample_env_def sample_config_def line_b_def cand_b_def)

lemma sample_make_c:
  "bear p = 0 \<Longrightarrow> make_candidates sample_env p line_c sample_config observer is_last_lrp =
     (Inr [cand_c], notify observer (On_candidate_found p cand_c))"
  by (simp add: make_candidates_def snap_not_last_def snap_last_def admit_candidate_def
      Candidate_def Let_def sample_env_def sample_config_def line_c_def cand_c_def)

lemma sample_nominate:
  "bear p = 0 \<Longrightarrow> nominate_candidates sample_env p sample_config observer is_last_lrp =
     (Inr [cand_b, cand_c],
      notify observer (On_candidate_found p cand_b) @ notify observer (On_candidate_found p cand_c))"
proof -
  assume b: "bear p = 0"
  have "find_lines_close_to sample_env (coords sample_env p) (search_radius sample_config)
          = [line_b, line_c]"
    by (simp add: sample_env_def)
  then show ?thesis
    by (simp add: nominate_candidates_def sample_make_b[OF b] sample_make_c[OF b])
qed

lemma sample_route_ab:
  "get_candidate_route sample_env cand_a cand_b lfrc maxlen = Inr (Some (Route cand_a [] cand_b))"
  by (simp add: get_candidate_route_def sample_env_def sample_cands sample_lines)

lemma sample_route_ac:
  "get_candidate_route sample_env cand_a cand_c lfrc maxlen = Inr (Some (Route cand_a [] cand_c))"
  by (simp add: get_candidate_route_def sample_env_def sample_cands sample_lines)

lemma sample_route_cb:
  "get_candidate_route sample_env cand_c cand_b lfrc maxlen = Inr (Some (Route cand_c [] cand_b))"
  by (simp add: get_candidate_route_def sample_env_def sample_cands sample_lines)

lemma sample_route_cc:
  "get_candidate_route sample_env cand_c cand_c lfrc maxlen = Inr (Some (Route cand_c [] cand_c))"
  by (simp add: get_candidate_route_def)

lemma sample_length:
  "route_length sample_env (Route s path cand_b) = 500"
  "route_length sample_env (Route s path cand_c) = 100"
  by (simp_all add: sample_env_def sample_cands sample_lines)

lemma sample_pair_b:
  "handleCandidatePair sample_env observer (p, q) (cand_a, cand_b) 7 60 140 =
     (Inr None,
      notify observer (On_route_success p q cand_a cand_b (Route cand_a [] cand_b)) @
      notify observer (On_route_fail_length p q cand_a cand_b (Route cand_a [] cand_b) 500 60 140) @
      notify observer (On_route_fail p q cand_a cand_b
                         ''Shortest path deviation from DNP is too large''))"
  by (simp add: handleCandidatePair_def sample_route_ab sample_length)

lemma sample_pair_c:
  "handleCandidatePair sample_env observer (p, q) (cand_a, cand_c) 7 60 140 =
     (Inr (Some (Route cand_a [] cand_c)),
      notify observer (On_route_success p q cand_a cand_c (Route cand_a [] cand_c)))"
  by (simp add: handleCandidatePair_def sample_route_ac sample_length)

lemma sample_pair_cb:
  "handleCandidatePair sample_env observer (p, q) (cand_c, cand_b) 7 60 140 =
     (Inr None,
      notify observer (On_route_success p q cand_c cand_b (Route cand_c [] cand_b)) @
      notify observer (On_route_fail_length p q cand_c cand_b (Route cand_c [] cand_b) 500 60 140) @
      notify observer (On_route_fail p q cand_c cand_b
                         ''Shortest path deviation from DNP is too large''))"
  by (simp add: handleCandidatePair_def sample_route_cb sample_length)

lemma sample_pair_cc:
  "handleCandidatePair sample_env observer (p, q) (cand_c, cand_c) 7 60 140 =
     (Inr (Some (Route cand_c [] cand_c)),
      notify observer (On_route_success p q cand_c cand_c (Route cand_c [] cand_c)))"
  by (simp add: handleCandidatePair_def sample_route_cc sample_length)

lemma sample_sorted:
  "sort_key (\<lambda>pair. - (score (fst pair) + score (snd pair))) (List.product [cand_a] [cand_b, cand_c])
     = [(cand_a, cand_b), (cand_a, cand_c)]"
  "sort_key (\<lambda>pair. - (score (fst pair) + score (snd pair))) (List.product [cand_c] [cand_b, cand_c])
     = [(cand_c, cand_b), (cand_c, cand_c)]"
  by (simp_all add: sample_cands)

lemma sample_score: "score cand_a = 1" "score cand_b = 9 / 10" "score cand_c = 8 / 10"
  by (simp_all add: sample_cands)

lemmas sample_run = Let_def sample_score memo_lookup_def sample_nominate sample_sorted sample_config_sel sample_lrp_sel
  sample_pair_b sample_pair_c sample_pair_cb sample_pair_cc emit_def store_def sample_distinct

lemma sample_two_points:
  "fst (match_tail sample_env sample_config observer lrp0 [cand_a] [lrp1] 0
          \<lparr>cache = Map.empty, trace = []\<rparr>) = Inr [Route cand_a [] cand_c]"
  by (simp add: sample_run)

lemma sample_three_points:
  "fst (match_tail sample_env sample_config observer lrp0 [cand_a] [lrp1, lrp2] 0
          \<lparr>cache = Map.empty, trace = t\<rparr>) = Inr [Route cand_a [] cand_c, Route cand_c [] cand_c]"
  by (simp add: sample_run)

section \<open>The memoisation\<close>

text \<open>
  Claim C1: with exactly one candidate and the context key \<^verbatim>\<open>(current, candidates[0])\<close>
  in the dictionary, \<^verbatim>\<open>match_tail\<close> should return the cached routes, or raise the
  decode failure when the entry records one, testing and reading the same key. The source
  tests \<^verbatim>\<open>(depth, candidates[0])\<close> instead. On the small map, with the context key
  holding a failure, the call does not raise but computes a route; with the context key
  holding a list of routes, the call returns another, computed list; and with the key of
  the test present, the lookup of the context key is a \<^verbatim>\<open>KeyError\<close>.
\<close>

theorem match_tail_memo_test_uses_depth_key:
  "fst (match_tail sample_env sample_config observer lrp0 [cand_a] [lrp1] 0
          \<lparr>cache = [Lrp_key lrp0 cand_a \<mapsto> None], trace = []\<rparr>)
     = Inr [Route cand_a [] cand_c]
   \<and> fst (match_tail sample_env sample_config observer lrp0 [cand_a] [lrp1] 0
          \<lparr>cache = [Lrp_key lrp0 cand_a \<mapsto> Some [Route cand_a [] cand_b]], trace = []\<rparr>)
     = Inr [Route cand_a [] cand_c]
   \<and> fst (match_tail sample_env sample_config observer lrp0 [cand_a] [lrp1] 0
          \<lparr>cache = [Depth_key 0 cand_a \<mapsto> None], trace = []\<rparr>)
     = Inl KeyError"
  by (simp add: sample_run)

lemma duplicate_make:
  "bear p = 0 \<Longrightarrow> make_candidates duplicate_env p line_b sample_config observer is_last_lrp =
     (Inr [cand_b], notify observer (On_candidate_found p cand_b))"
  "bear p = 0 \<Longrightarrow> make_candidates duplicate_env p line_c sample_config observer is_last_lrp =
     (Inr [cand_c], notify observer (On_candidate_found p cand_c))"
  by (simp_all add: make_candidates_def snap_not_last_def snap_last_def admit_candidate_def
      Candidate_def Let_def duplicate_env_def sample_env_def sample_config_def sample_lines
      sample_cands)

lemma duplicate_nominate:
  "bear p = 0 \<Longrightarrow> nominate_candidates duplicate_env p sample_config observer is_last_lrp =
     (Inr [cand_b, cand_b, cand_c],
      notify observer (On_candidate_found p cand_b) @ notify observer (On_candidate_found p cand_b) @
      notify observer (On_candidate_found p cand_c))"
proof -
  assume b: "bear p = 0"
  have "find_lines_close_to duplicate_env (coords duplicate_env p) (search_radius sample_config)
          = [line_b, line_b, line_c]"
    by (simp add: duplicate_env_def)
  then show ?thesis
    by (simp add: nominate_candidates_def duplicate_make[OF b])
qed

lemma duplicate_pair:
  "handleCandidatePair duplicate_env observer (p, q) (cand_a, cand_b) 7 60 140 =
     (Inr None,
      notify observer (On_route_success p q cand_a cand_b (Route cand_a [] cand_b)) @
      notify observer (On_route_fail_length p q cand_a cand_b (Route cand_a [] cand_b) 500 60 140) @
      notify observer (On_route_fail p q cand_a cand_b
                         ''Shortest path deviation from DNP is too large''))"
  by (simp add: handleCandidatePair_def get_candidate_route_def duplicate_env_def sample_env_def
      sample_cands sample_lines)

text \<open>
  Claim C2: a pair that the dictionary holds as a failure should be skipped, the search
  going on with the next pair. The source raises at such a pair (line 212). On the small
  map the pair of \<open>cand_a\<close> and \<open>cand_b\<close> comes first; when the dictionary holds its failure
  the call raises at once, with neither \<^verbatim>\<open>on_route_success\<close> nor
  \<^verbatim>\<open>on_matching_fail\<close> in the trace, although the next pair has a route within the
  envelope: from the empty dictionary, where the same pair fails on its length, the call
  goes on and returns that route. Where the reader reports \<open>line_b\<close> twice, a single call
  from the empty dictionary stores the failure of the pair, meets the pair again and
  raises, the pair with the route untried.
\<close>

theorem match_tail_cached_pair_failure_raises:
  "match_tail sample_env sample_config True lrp0 [cand_a] [lrp1] 0
          \<lparr>cache = [Pair_key cand_a cand_b \<mapsto> None], trace = []\<rparr>
     = (Inl (LRDecodeError No_candidates_left),
        \<lparr>cache = [Pair_key cand_a cand_b \<mapsto> None],
         trace = [On_candidate_found lrp1 cand_b, On_candidate_found lrp1 cand_c,
                  On_candidates_found lrp1 [cand_b, cand_c]]\<rparr>)
   \<and> fst (match_tail sample_env sample_config True lrp0 [cand_a] [lrp1] 0
          \<lparr>cache = Map.empty, trace = []\<rparr>)
     = Inr [Route cand_a [] cand_c]
   \<and> match_tail duplicate_env sample_config False lrp0 [cand_a] [lrp1] 0
          \<lparr>cache = Map.empty, trace = []\<rparr>
     = (Inl (LRDecodeError No_candidates_left),
        \<lparr>cache = [Pair_key cand_a cand_b \<mapsto> None], trace = []\<rparr>)"
  by (simp add: sample_run duplicate_nominate duplicate_pair notify_def)


lemma sample_far_sel: "dnp lrp_far = 1000" "lfrcnp lrp_far = 0"
  by (simp_all add: lrp_far_def)

lemma sample_pair_far:
  "handleCandidatePair sample_env observer (p, q) (cand_a, cand_b) 7 870 1130 =
     (Inr None,
      notify observer (On_route_success p q cand_a cand_b (Route cand_a [] cand_b)) @
      notify observer (On_route_fail_length p q cand_a cand_b (Route cand_a [] cand_b) 500 870 1130) @
      notify observer (On_route_fail p q cand_a cand_b
                         ''Shortest path deviation from DNP is too large''))"
  "handleCandidatePair sample_env observer (p, q) (cand_a, cand_c) 7 870 1130 =
     (Inr None,
      notify observer (On_route_success p q cand_a cand_c (Route cand_a [] cand_c)) @
      notify observer (On_route_fail_length p q cand_a cand_c (Route cand_a [] cand_c) 100 870 1130) @
      notify observer (On_route_fail p q cand_a cand_c
                         ''Shortest path deviation from DNP is too large''))"
  by (simp_all add: handleCandidatePair_def sample_route_ab sample_route_ac sample_length)

lemma sample_far_call:
  "match_tail_default sample_env sample_config observer lrp_far [cand_a] [lrp1] Map.empty =
     (Inl (LRDecodeError No_candidates_left),
      [Pair_key cand_a cand_b \<mapsto> None, Pair_key cand_a cand_c \<mapsto> None,
       Lrp_key lrp_far cand_a \<mapsto> None])"
  by (simp add: match_tail_default_def sample_run sample_far_sel sample_pair_far)

text \<open>
  Claim C3: two top-level calls with the same arguments and the default dictionary should
  return the same result, whatever was decoded before in the process. The source's
  default argument is one dictionary for the whole process. On the small map the first
  call returns a route and leaves the failure of the pair of \<open>cand_a\<close> and \<open>cand_b\<close> behind;
  the second, identical call meets it and raises. Likewise the call returns the route in a
  new process, and raises after a decode from \<open>lrp_far\<close>, whose envelope had rejected
  both pairs.
\<close>

theorem match_tail_default_cache_is_shared:
  "two_default_calls sample_env sample_config observer lrp0 [cand_a] [lrp1] Map.empty
     = (Inr [Route cand_a [] cand_c], Inl (LRDecodeError No_candidates_left))
   \<and> fst (match_tail_default sample_env sample_config observer lrp0 [cand_a] [lrp1] Map.empty)
     = Inr [Route cand_a [] cand_c]
   \<and> fst (match_tail_default sample_env sample_config observer lrp0 [cand_a] [lrp1]
            (snd (match_tail_default sample_env sample_config observer lrp_far [cand_a] [lrp1]
                    Map.empty)))
     = Inl (LRDecodeError No_candidates_left)"
  by (simp add: two_default_calls_def sample_far_call) (simp add: match_tail_default_def sample_run)


section \<open>Properties of the route resolver and of the pair handling\<close>

text \<open>
  Claim C6: for two candidates on lines with the same \<^verbatim>\<open>line_id\<close>,
  \<^verbatim>\<open>get_candidate_route\<close> returns the route with no intermediate line, for every
  \<^verbatim>\<open>lfrc\<close> and \<^verbatim>\<open>maxlen\<close>. It is never \<^verbatim>\<open>None\<close>, and the result does not depend
  on the path search: it is the same on a map whose path search always raises.
\<close>

theorem get_candidate_route_same_line:
  "line_id (line start) = line_id (line dest) \<Longrightarrow>
     get_candidate_route e start dest lfrc maxlen = Inr (Some (Route start [] dest))"
  by (simp add: get_candidate_route_def)

theorem get_candidate_route_same_line_witness:
  "line_id (line cand_a) = line_id (line cand_a') \<and>
   shortest_path raising_env (end_node (line cand_a)) (start_node (line cand_a'))
     (\<lambda>l. frc l \<le> 0) 0 = Inl External_error \<and>
   get_candidate_route raising_env cand_a cand_a' 0 0 = Inr (Some (Route cand_a [] cand_a'))"
proof -
  have same: "line_id (line cand_a) = line_id (line cand_a')"
    by (simp add: cand_a_def cand_a'_def)
  have "shortest_path raising_env (end_node (line cand_a)) (start_node (line cand_a'))
          (\<lambda>l. frc l \<le> 0) 0 = Inl External_error"
    by (simp add: raising_env_def sample_env_def)
  with same get_candidate_route_same_line[OF same, of raising_env 0 0] show ?thesis
    by simp
qed

text \<open>
  Claim C10: when \<^verbatim>\<open>get_candidate_route\<close> finds a route and an observer is given,
  \<^verbatim>\<open>handleCandidatePair\<close> calls \<^verbatim>\<open>on_route_success\<close> first, whatever the length
  check says afterwards. A route whose length is outside the envelope gives
  \<^verbatim>\<open>on_route_success\<close>, then \<^verbatim>\<open>on_route_fail_length\<close>, then \<^verbatim>\<open>on_route_fail\<close>,
  and the result \<^verbatim>\<open>None\<close>.
\<close>

theorem handleCandidatePair_success_before_length_check:
  assumes "get_candidate_route e source dest lowest_frc maxlen = Inr (Some r)"
  shows "handleCandidatePair e True (current, next_lrp) (source, dest) lowest_frc minlen maxlen =
     (if route_length e r < minlen \<or> route_length e r > maxlen
      then (Inr None,
            [On_route_success current next_lrp source dest r,
             On_route_fail_length current next_lrp source dest r (route_length e r) minlen maxlen,
             On_route_fail current next_lrp source dest
               ''Shortest path deviation from DNP is too large''])
      else (Inr (Some r), [On_route_success current next_lrp source dest r]))"
  using assms by (simp add: handleCandidatePair_def notify_def Let_def)

theorem handleCandidatePair_success_before_length_check_witness:
  "get_candidate_route sample_env cand_a cand_b 7 140 = Inr (Some (Route cand_a [] cand_b)) \<and>
   route_length sample_env (Route cand_a [] cand_b) = 500 \<and>
   handleCandidatePair sample_env True (lrp0, lrp1) (cand_a, cand_b) 7 60 140 =
     (Inr None,
      [On_route_success lrp0 lrp1 cand_a cand_b (Route cand_a [] cand_b),
       On_route_fail_length lrp0 lrp1 cand_a cand_b (Route cand_a [] cand_b) 500 60 140,
       On_route_fail lrp0 lrp1 cand_a cand_b ''Shortest path deviation from DNP is too large''])"
proof -
  have found: "get_candidate_route sample_env cand_a cand_b 7 140 = Inr (Some (Route cand_a [] cand_b))"
    by (rule sample_route_ab)
  have len: "route_length sample_env (Route cand_a [] cand_b) = 500"
    by (rule sample_length)
  from handleCandidatePair_success_before_length_check[OF found, of lrp0 lrp1 60] found len
  show ?thesis by simp
qed


section \<open>Properties of the candidate generation\<close>












section \<open>Properties of the node classification\<close>

lemma fold_add_endpoints:
  "fold add_endpoints ls s = s \<union> (\<Union>l\<in>set ls. {start_node l, end_node l})"
  by (induction ls arbitrary: s) (auto simp: add_endpoints_def)

text \<open>
  Claim C7, as amended: \<^verbatim>\<open>is_invalid_node\<close> holds exactly when the node has one incoming
  and one outgoing line, or two incoming and two outgoing lines, and these lines have
  three end nodes between them; \<^verbatim>\<open>is_valid_node\<close> is its negation. Nothing else is
  asked of the node with two incoming and two outgoing lines.
\<close>

theorem is_invalid_node_cardinality_only:
  "is_invalid_node e n =
     (((length (incoming_lines e n) = 1 \<and> length (outgoing_lines e n) = 1) \<or>
       (length (incoming_lines e n) = 2 \<and> length (outgoing_lines e n) = 2)) \<and>
      card (\<Union>l\<in>set (incoming_lines e n @ outgoing_lines e n). {start_node l, end_node l}) = 3)
   \<and> is_valid_node e n = (\<not> is_invalid_node e n)"
  by (auto simp: is_invalid_node_def is_valid_node_def Let_def fold_add_endpoints Un_commute)

text \<open>
  Claim C7 as stated also asks, of a node with two incoming and two outgoing lines, that
  the lines continue one road in both directions. At node 0 of \<open>junction_env\<close> they do
  not (a line comes in from node 2 and none goes back), and the node is classified
  invalid all the same.
\<close>

theorem is_invalid_node_without_continuation:
  "length (incoming_lines junction_env 0) = 2 \<and> length (outgoing_lines junction_env 0) = 2 \<and>
   is_invalid_node junction_env 0 \<and> \<not> is_valid_node junction_env 0 \<and>
   \<not> spec_bidirectional_continuation junction_env 0"
  by (simp add: is_invalid_node_def is_valid_node_def spec_bidirectional_continuation_def
      junction_env_def add_endpoints_def card_insert_if)

section \<open>Candidates missing for the next point\<close>

text \<open>
  Claim C8: in a call that is not answered from the dictionary (the test of line 174 is
  false) and has a candidate, when \<^verbatim>\<open>nominate_candidates\<close> yields nothing for the next
  point, \<^verbatim>\<open>match_tail\<close> calls \<^verbatim>\<open>on_no_candidates_found\<close> on the observer, if there is
  one, after the calls of the nomination, and raises \<^verbatim>\<open>LRDecodeError\<close>. It returns no
  route list and leaves the dictionary as it was.
\<close>

theorem match_tail_no_candidates:
  assumes "\<not> (length candidates = 1 \<and> Depth_key depth (candidates ! 0) \<in> dom (cache st))"
      and "candidates \<noteq> []"
      and "nominate_candidates e next_lrp cfg observer (length (next_lrp # rest) = 1) = (Inr [], evs)"
  shows "match_tail e cfg observer current candidates (next_lrp # rest) depth st =
      (Inl (LRDecodeError (No_candidates_found next_lrp)),
       emit (evs @ notify observer (On_no_candidates_found next_lrp)) st)"
proof -
  from assms(1) have "memo_lookup current candidates depth (cache st) = None"
    by (auto simp: memo_lookup_def dom_def)
  with assms(2,3) show ?thesis by simp
qed

theorem match_tail_no_candidates_witness:
  "nominate_candidates empty_env lrp1 sample_config True (length [lrp1] = 1) = (Inr [], []) \<and>
   match_tail empty_env sample_config True lrp0 [cand_a] [lrp1] 0 \<lparr>cache = Map.empty, trace = []\<rparr> =
     (Inl (LRDecodeError (No_candidates_found lrp1)),
      \<lparr>cache = Map.empty, trace = [On_no_candidates_found lrp1]\<rparr>)"
proof -
  have miss: "\<not> (length [cand_a] = 1 \<and>
                 Depth_key 0 ([cand_a] ! 0) \<in> dom (cache \<lparr>cache = Map.empty, trace = []\<rparr>))"
    by simp
  have some: "[cand_a] \<noteq> []"
    by simp
  have none: "nominate_candidates empty_env lrp1 sample_config True (length (lrp1 # []) = 1) = (Inr [], [])"
    by (simp add: nominate_candidates_def empty_env_def)
  from match_tail_no_candidates[OF miss some none, of lrp0] none show ?thesis
    by (simp add: emit_def notify_def)
qed


section \<open>The DNP envelope\<close>

lemma computed_only_emit: "computed_only (cache (emit evs st)) = computed_only (cache st)"
  by (simp add: emit_def)

lemma computed_only_store_pair:
  "computed_only (cache st) \<Longrightarrow> computed_only (cache (store (Pair_key a b) None st))"
  by (simp add: store_def computed_only_def)

lemma computed_only_store_lrp:
  "computed_only (cache st) \<Longrightarrow> computed_only (cache (store (Lrp_key p c) v st))"
  by (simp add: store_def computed_only_def)

lemma computed_only_memo:
  "computed_only c \<Longrightarrow> memo_lookup current candidates depth c = None"
  by (simp add: memo_lookup_def computed_only_def)

lemma handleCandidatePair_accepts:
  "handleCandidatePair e observer lrps pair lfrc minlen maxlen = (Inr (Some r), evs) \<Longrightarrow>
     minlen \<le> route_length e r \<and> route_length e r \<le> maxlen"
  by (auto simp: handleCandidatePair_def Let_def split: prod.splits sum.splits option.splits if_splits)

lemma handleCandidatePair_rejects:
  "get_candidate_route e (fst pair) (snd pair) lfrc maxlen = Inr (Some r) \<Longrightarrow>
   route_length e r < minlen \<or> maxlen < route_length e r \<Longrightarrow>
     fst (handleCandidatePair e observer lrps pair lfrc minlen maxlen) = Inr None"
  by (auto simp: handleCandidatePair_def Let_def split: prod.splits)

text \<open>
  The loop keeps the dictionary as the module fills it, and a list it returns starts with
  a route that \<open>handleCandidatePair\<close> accepted; \<open>Q\<close> is what the recursive call
  guarantees of the rest.
\<close>

lemma match_pairs_envelope:
  assumes rec: "\<And>c_to st res st'. computed_only (cache st) \<Longrightarrow> recurse c_to st = (res, st') \<Longrightarrow>
                  computed_only (cache st') \<and> (\<forall>sub. res = Inr sub \<longrightarrow> Q sub)"
  shows "computed_only (cache st) \<Longrightarrow>
         match_pairs recurse e observer current next_lrp candidates next_candidates last_lrp
           lfrc minlen maxlen pairs st = (res, st') \<Longrightarrow>
         computed_only (cache st') \<and>
         (\<forall>rs. res = Inr rs \<longrightarrow>
            (\<exists>r sub. rs = r # sub \<and> minlen \<le> route_length e r \<and> route_length e r \<le> maxlen \<and>
                     (if last_lrp then sub = [] else Q sub)))"
proof (induction pairs arbitrary: st)
  case Nil
  then show ?case
    by (auto simp: Let_def computed_only_emit computed_only_store_lrp split: if_splits)
next
  case (Cons pr pairs)
  obtain c_from c_to where pr: "pr = (c_from, c_to)" by (cases pr)
  have miss: "cache st (Pair_key c_from c_to) \<noteq> Some (Some v)" for v
    using Cons.prems(1) by (simp add: computed_only_def)
  show ?case
  proof (cases "cache st (Pair_key c_from c_to)")
    case (Some v)
    with miss have "cache st (Pair_key c_from c_to) = Some None" by (cases v) auto
    with Cons.prems pr show ?thesis by auto
  next
    case None
    obtain hres evs where
      h: "handleCandidatePair e observer (current, next_lrp) (c_from, c_to) lfrc minlen maxlen
            = (hres, evs)"
      by (cases "handleCandidatePair e observer (current, next_lrp) (c_from, c_to) lfrc minlen maxlen")
    show ?thesis
    proof (cases hres)
      case (Inl err)
      with None h pr Cons.prems show ?thesis by (auto simp: computed_only_emit)
    next
      case (Inr found)
      show ?thesis
      proof (cases found)
        case no_route: None
        have "computed_only (cache (store (Pair_key c_from c_to) None (emit evs st)))"
          using Cons.prems(1) by (simp add: computed_only_store_pair computed_only_emit)
        moreover have "match_pairs recurse e observer current next_lrp candidates next_candidates
            last_lrp lfrc minlen maxlen pairs (store (Pair_key c_from c_to) None (emit evs st))
              = (res, st')"
          using Cons.prems(2) pr None h Inr no_route by simp
        ultimately show ?thesis by (rule Cons.IH)
      next
        case (Some r)
        have inside: "minlen \<le> route_length e r \<and> route_length e r \<le> maxlen"
          using h Inr Some by (auto dest: handleCandidatePair_accepts)
        show ?thesis
        proof (cases last_lrp)
          case True
          with Cons.prems pr None h Inr Some inside show ?thesis
            by (auto simp: computed_only_emit)
        next
          case False
          obtain rres st2 where r2: "recurse c_to (emit evs st) = (rres, st2)"
            by (cases "recurse c_to (emit evs st)")
          have co: "computed_only (cache (emit evs st))"
            using Cons.prems(1) by (simp add: computed_only_emit)
          from rec[OF co r2] have co2: "computed_only (cache st2)"
            and q: "\<forall>sub. rres = Inr sub \<longrightarrow> Q sub" by auto
          show ?thesis
          proof (cases rres)
            case sub: (Inr sub)
            with Cons.prems(2) pr None h Inr Some False r2 co2 q inside show ?thesis
              by (auto simp: Let_def computed_only_store_lrp split: if_splits)
          next
            case failed: (Inl err)
            show ?thesis
            proof (cases err)
              case (LRDecodeError msg)
              have "match_pairs recurse e observer current next_lrp candidates next_candidates
                      last_lrp lfrc minlen maxlen pairs st2 = (res, st')"
                using Cons.prems(2) pr None h Inr Some False r2 failed LRDecodeError by simp
              with co2 show ?thesis by (rule Cons.IH)
            qed (use Cons.prems(2) pr None h Inr Some False r2 failed co2 in auto)
          qed
        qed
      qed
    qed
  qed
qed

lemma match_tail_envelope:
  "computed_only (cache st) \<Longrightarrow>
   match_tail e cfg observer current candidates tail depth st = (res, st') \<Longrightarrow>
   computed_only (cache st') \<and> (\<forall>rs. res = Inr rs \<longrightarrow> within_envelopes e cfg current tail rs)"
proof (induction tail arbitrary: current candidates depth st res st')
  case Nil
  then show ?case by (auto simp: computed_only_memo)
next
  case (Cons next_lrp rest)
  have memo: "memo_lookup current candidates depth (cache st) = None"
    using Cons.prems(1) by (rule computed_only_memo)
  show ?case
  proof (cases "candidates = []")
    case True
    with Cons.prems memo show ?thesis by auto
  next
    case False
    obtain nres evs where
      n: "nominate_candidates e next_lrp cfg observer (rest = []) = (nres, evs)"
      by (cases "nominate_candidates e next_lrp cfg observer (rest = [])")
    show ?thesis
    proof (cases nres)
      case (Inl err)
      with Cons.prems memo False n show ?thesis by (auto simp: computed_only_emit)
    next
      case (Inr next_candidates)
      show ?thesis
      proof (cases "next_candidates = []")
        case True
        with Cons.prems memo False n Inr show ?thesis by (auto simp: computed_only_emit)
      next
        case some: False
        let ?st0 = "emit (evs @ notify observer (On_candidates_found next_lrp next_candidates)) st"
        let ?minlen = "(1 - max_dnp_deviation cfg) * dnp current - tolerated_dnp_dev cfg"
        let ?maxlen = "(1 + max_dnp_deviation cfg) * dnp current + tolerated_dnp_dev cfg"
        have run: "match_pairs (\<lambda>c_to. match_tail e cfg observer next_lrp [c_to] rest (depth + 1))
                     e observer current next_lrp candidates next_candidates (rest = [])
                     (tolerated_lfrc cfg (lfrcnp current)) ?minlen ?maxlen
                     (sort_key (\<lambda>pair. - (score (fst pair) + score (snd pair)))
                        (List.product candidates next_candidates)) ?st0 = (res, st')"
          using Cons.prems(2) memo False n Inr some by (simp add: Let_def)
        have co: "computed_only (cache ?st0)"
          using Cons.prems(1) by (simp add: computed_only_emit)
        have "computed_only (cache st') \<and>
              (\<forall>rs. res = Inr rs \<longrightarrow>
                 (\<exists>r sub. rs = r # sub \<and> ?minlen \<le> route_length e r \<and> route_length e r \<le> ?maxlen \<and>
                     (if rest = [] then sub = [] else within_envelopes e cfg next_lrp rest sub)))"
        proof (rule match_pairs_envelope[where Q = "within_envelopes e cfg next_lrp rest", OF _ co run])
          fix c_to s r s'
          assume "computed_only (cache s)"
            and "match_tail e cfg observer next_lrp [c_to] rest (depth + 1) s = (r, s')"
          then show "computed_only (cache s') \<and>
                     (\<forall>sub. r = Inr sub \<longrightarrow> within_envelopes e cfg next_lrp rest sub)"
            by (rule Cons.IH)
        qed
        then show ?thesis by auto
      qed
    qed
  qed
qed

text \<open>
  Claim C4: a route that \<^verbatim>\<open>handleCandidatePair\<close> returns has its length between
  \<open>minlen\<close> and \<open>maxlen\<close>; a route that was found with a length outside makes it return
  \<^verbatim>\<open>None\<close>. \<^verbatim>\<open>match_tail\<close> passes
  \<open>minlen = (1 - max_dnp_deviation) * dnp - tolerated_dnp_dev\<close> and
  \<open>maxlen = (1 + max_dnp_deviation) * dnp + tolerated_dnp_dev\<close> of the current point: every
  list of routes it returns from an empty dictionary has one route per pair of consecutive
  points, each within the envelope of the point it starts from.
\<close>

theorem handleCandidatePair_within_envelope:
  "(fst (handleCandidatePair e observer lrps pair lowest_frc minlen maxlen) = Inr (Some r)
      \<longrightarrow> minlen \<le> route_length e r \<and> route_length e r \<le> maxlen)
   \<and> (get_candidate_route e (fst pair) (snd pair) lowest_frc maxlen = Inr (Some r') \<and>
       (route_length e r' < minlen \<or> maxlen < route_length e r')
      \<longrightarrow> fst (handleCandidatePair e observer lrps pair lowest_frc minlen maxlen) = Inr None)
   \<and> (fst (match_tail e cfg observer current candidates tail depth \<lparr>cache = Map.empty, trace = t\<rparr>)
         = Inr rs
      \<longrightarrow> within_envelopes e cfg current tail rs)"
proof (intro conjI impI)
  assume "fst (handleCandidatePair e observer lrps pair lowest_frc minlen maxlen) = Inr (Some r)"
  then obtain evs where
    "handleCandidatePair e observer lrps pair lowest_frc minlen maxlen = (Inr (Some r), evs)"
    by (cases "handleCandidatePair e observer lrps pair lowest_frc minlen maxlen") auto
  then have "minlen \<le> route_length e r \<and> route_length e r \<le> maxlen"
    by (rule handleCandidatePair_accepts)
  then show "minlen \<le> route_length e r" and "route_length e r \<le> maxlen" by auto
next
  assume "get_candidate_route e (fst pair) (snd pair) lowest_frc maxlen = Inr (Some r') \<and>
          (route_length e r' < minlen \<or> maxlen < route_length e r')"
  then show "fst (handleCandidatePair e observer lrps pair lowest_frc minlen maxlen) = Inr None"
    by (auto intro: handleCandidatePair_rejects)
next
  assume run: "fst (match_tail e cfg observer current candidates tail depth
                      \<lparr>cache = Map.empty, trace = t\<rparr>) = Inr rs"
  obtain st' where
    "match_tail e cfg observer current candidates tail depth \<lparr>cache = Map.empty, trace = t\<rparr>
       = (Inr rs, st')"
    using run
    by (cases "match_tail e cfg observer current candidates tail depth \<lparr>cache = Map.empty, trace = t\<rparr>")
       auto
  moreover have "computed_only (cache \<lparr>cache = Map.empty, trace = t\<rparr>)"
    by (simp add: computed_only_def)
  ultimately show "within_envelopes e cfg current tail rs"
    using match_tail_envelope by blast
qed

theorem handleCandidatePair_within_envelope_witness:
  "fst (handleCandidatePair sample_env True (lrp0, lrp1) (cand_a, cand_c) 7 60 140)
     = Inr (Some (Route cand_a [] cand_c)) \<and>
   route_length sample_env (Route cand_a [] cand_c) = 100 \<and>
   get_candidate_route sample_env cand_a cand_b 7 140 = Inr (Some (Route cand_a [] cand_b)) \<and>
   route_length sample_env (Route cand_a [] cand_b) = 500 \<and>
   fst (handleCandidatePair sample_env True (lrp0, lrp1) (cand_a, cand_b) 7 60 140) = Inr None \<and>
   fst (match_tail sample_env sample_config True lrp0 [cand_a] [lrp1, lrp2] 0
          \<lparr>cache = Map.empty, trace = []\<rparr>)
     = Inr [Route cand_a [] cand_c, Route cand_c [] cand_c] \<and>
   within_envelopes sample_env sample_config lrp0 [lrp1, lrp2]
     [Route cand_a [] cand_c, Route cand_c [] cand_c]"
proof -
  have accepted: "fst (handleCandidatePair sample_env True (lrp0, lrp1) (cand_a, cand_c) 7 60 140)
                    = Inr (Some (Route cand_a [] cand_c))"
    by (simp add: sample_pair_c)
  have found: "get_candidate_route sample_env (fst (cand_a, cand_b)) (snd (cand_a, cand_b)) 7 140
                 = Inr (Some (Route cand_a [] cand_b))"
    by (simp add: sample_route_ab)
  have long: "route_length sample_env (Route cand_a [] cand_b) = 500"
    by (rule sample_length)
  have run: "fst (match_tail sample_env sample_config True lrp0 [cand_a] [lrp1, lrp2] 0
                    \<lparr>cache = Map.empty, trace = []\<rparr>)
               = Inr [Route cand_a [] cand_c, Route cand_c [] cand_c]"
    by (rule sample_three_points)
  note main = handleCandidatePair_within_envelope
  from main[where e = sample_env and observer = True and lrps = "(lrp0, lrp1)"
        and pair = "(cand_a, cand_c)" and lowest_frc = 7 and minlen = 60 and maxlen = 140
        and r = "Route cand_a [] cand_c"] accepted
  have inside: "60 \<le> route_length sample_env (Route cand_a [] cand_c) \<and>
                route_length sample_env (Route cand_a [] cand_c) \<le> 140"
    by blast
  from main[where e = sample_env and observer = True and lrps = "(lrp0, lrp1)"
        and pair = "(cand_a, cand_b)" and lowest_frc = 7 and minlen = 60 and maxlen = 140
        and r' = "Route cand_a [] cand_b"] found long
  have rejected: "fst (handleCandidatePair sample_env True (lrp0, lrp1) (cand_a, cand_b) 7 60 140)
                    = Inr None"
    by simp
  from main[where e = sample_env and cfg = sample_config and observer = True and current = lrp0
        and candidates = "[cand_a]" and tail = "[lrp1, lrp2]" and depth = 0 and t = "[]"
        and rs = "[Route cand_a [] cand_c, Route cand_c [] cand_c]"] run
  have env: "within_envelopes sample_env sample_config lrp0 [lrp1, lrp2]
               [Route cand_a [] cand_c, Route cand_c [] cand_c]"
    by blast
  from accepted inside found long rejected run env show ?thesis
    by (simp add: sample_length)
qed


end
